theory Spec2Isabelle
  imports Main "HOL-Library.Word"
begin

unbundle bit_operations_syntax

section \<open>Data model of main.go\<close>

text \<open>
  A Go \<open>error\<close> value is represented by its message. The errors of the JSON encoder, of
  \<open>http.NewRequest\<close> and of \<open>client.Do\<close> are produced outside the repository and are
  arbitrary values of this type; the only error main.go creates itself is
  \<open>fmt.Errorf("response not ok")\<close>.
\<close>

datatype error = Error string

type_synonym u8 = "8 word"
type_synonym u32 = "32 word"

text \<open>\<open>type updateEvent struct\<close> (main.go, lines 209-214).\<close>

record updateEvent =
  RefName :: string
  UpdateType :: string
  OldID :: string
  NewID :: string

text \<open>
  The anonymous struct of the field \<open>RefUpdateEvent\<close> (lines 203-206). A Go map may be
  \<open>nil\<close> (the field absent from the JSON document): that is \<open>None\<close>. A map that exists is
  given as the list of its entries in the order in which the \<open>range\<close> statement of
  \<open>processData\<close> visits them; Go leaves that order open, so the statements below hold for
  every list.
\<close>

record refUpdateEvent =
  Email :: string
  RefUpdates :: "(string \<times> updateEvent) list option"

text \<open>\<open>type data struct\<close> (lines 199-207); \<open>EventTime\<close> is never read.\<close>

record data =
  Name :: string
  URL :: string
  EventTime :: int
  RefUpdateEvent :: refUpdateEvent

text \<open>
  \<open>type slackField struct\<close> (lines 239-243). Its field \<open>Title\<close> shares its name with one
  of \<open>slackAttachment\<close>, so the three fields carry a suffix here.
\<close>

record slackField =
  Title_field :: string
  Value_field :: string
  Short_field :: bool

text \<open>\<open>type slackAttachment struct\<close> (lines 221-237).\<close>

record slackAttachment =
  Fallback :: string
  Color :: string
  Pretext :: string
  AuthorName :: string
  AuthorLink :: string
  AuthorIcon :: string
  Title :: string
  TitleLink :: string
  Text :: string
  Fields :: "slackField list"
  ImageURL :: string
  ThumbURL :: string
  Footer :: string
  FooterIcon :: string
  Timestamp :: "64 word"

text \<open>\<open>type slackMsg struct\<close> (lines 216-219).\<close>

record slackMsg =
  Text_msg :: string
  Attachments :: "slackAttachment list"

section \<open>The outside world\<close>

text \<open>
  main.go reaches the outside through four library calls. Each call that
  \<open>sendSlackMessage\<close> makes is appended to a trace, with its arguments.
\<close>

datatype call =
  JsonEncode slackMsg
  | HttpNewRequest string string
  | ClientDo string string string

text \<open>
  What the libraries answer is a parameter of the model, together with the configuration
  value \<open>slackURL\<close> (line 26):
  \<^item> \<open>jsonEncode\<close>: \<open>json.NewEncoder(&buf).Encode(message)\<close>, an error or the bytes written;
  \<^item> \<open>httpNewRequest\<close>: \<open>http.NewRequest(method, url, body)\<close>, the error if there is one;
  \<^item> \<open>clientDo\<close>: \<open>client.Do(req)\<close> for a request with that method, URL and body, an error
    or the status code of the response. The answer may depend on the calls made so far.
  \<^item> \<open>jsonUnmarshal\<close>: \<open>json.Unmarshal(msg.Data, &d)\<close>, an error or the decoded value.
\<close>

record env =
  slackURL :: string
  jsonEncode :: "slackMsg \<Rightarrow> error + string"
  httpNewRequest :: "string \<Rightarrow> string \<Rightarrow> error option"
  clientDo :: "call list \<Rightarrow> string \<Rightarrow> string \<Rightarrow> string \<Rightarrow> error + int"
  jsonUnmarshal :: "string \<Rightarrow> error + data"

text \<open>The network calls of a trace: the URL and body of every \<open>client.Do\<close>.\<close>

fun posts :: "call list \<Rightarrow> (string \<times> string) list" where
  "posts [] = []"
| "posts (ClientDo m u b # cs) = (u, b) # posts cs"
| "posts (c # cs) = posts cs"

section \<open>Library functions used by the mapper\<close>

text \<open>
  \<open>strings.SplitN(s, sep, n)\<close> for a separator of one byte and \<open>n \<ge> 0\<close>: \<open>n = 0\<close> gives
  no substrings, otherwise at most \<open>n\<close> substrings, the last one being the unsplit
  remainder.
\<close>

fun SplitN :: "string \<Rightarrow> char \<Rightarrow> nat \<Rightarrow> string list" where
  "SplitN s sep 0 = []"
| "SplitN s sep (Suc 0) = [s]"
| "SplitN s sep (Suc (Suc n)) =
     (if sep \<in> set s
      then takeWhile (\<lambda>x. x \<noteq> sep) s # SplitN (tl (dropWhile (\<lambda>x. x \<noteq> sep) s)) sep (Suc n)
      else [s])"

text \<open>
  \<open>fmt.Sprintf(format, args...)\<close> for the verb \<open>%s\<close> with string arguments, the only verb
  in the two format strings of main.go: every \<open>%s\<close> is replaced by the next argument,
  copied byte for byte, and a verb without an argument prints \<open>%!s(MISSING)\<close>. All
  other bytes of the format are copied.
\<close>

fun Sprintf :: "string \<Rightarrow> string list \<Rightarrow> string" where
  "Sprintf [] args = []"
| "Sprintf [c] args = [c]"
| "Sprintf (c # c' # fmt) args =
     (if c = CHR ''%'' \<and> c' = CHR ''s''
      then (case args of
              [] \<Rightarrow> ''%!s(MISSING)'' @ Sprintf fmt []
            | a # as \<Rightarrow> a @ Sprintf fmt as)
      else c # Sprintf (c' # fmt) args)"

text \<open>
  \<open>crypto/md5\<close>, after RFC 1321: the sine table, the shift amounts, the four round
  functions, the little-endian packing and the padding.
\<close>

definition md5_K :: "u32 list" where
  "md5_K = [
    0xd76aa478, 0xe8c7b756, 0x242070db, 0xc1bdceee, 0xf57c0faf, 0x4787c62a, 0xa8304613, 0xfd469501,
    0x698098d8, 0x8b44f7af, 0xffff5bb1, 0x895cd7be, 0x6b901122, 0xfd987193, 0xa679438e, 0x49b40821,
    0xf61e2562, 0xc040b340, 0x265e5a51, 0xe9b6c7aa, 0xd62f105d, 0x02441453, 0xd8a1e681, 0xe7d3fbc8,
    0x21e1cde6, 0xc33707d6, 0xf4d50d87, 0x455a14ed, 0xa9e3e905, 0xfcefa3f8, 0x676f02d9, 0x8d2a4c8a,
    0xfffa3942, 0x8771f681, 0x6d9d6122, 0xfde5380c, 0xa4beea44, 0x4bdecfa9, 0xf6bb4b60, 0xbebfbc70,
    0x289b7ec6, 0xeaa127fa, 0xd4ef3085, 0x04881d05, 0xd9d4d039, 0xe6db99e5, 0x1fa27cf8, 0xc4ac5665,
    0xf4292244, 0x432aff97, 0xab9423a7, 0xfc93a039, 0x655b59c3, 0x8f0ccc92, 0xffeff47d, 0x85845dd1,
    0x6fa87e4f, 0xfe2ce6e0, 0xa3014314, 0x4e0811a1, 0xf7537e82, 0xbd3af235, 0x2ad7d2bb, 0xeb86d391]"

definition md5_S :: "nat list" where
  "md5_S = [
    7, 12, 17, 22, 7, 12, 17, 22, 7, 12, 17, 22, 7, 12, 17, 22,
    5, 9, 14, 20, 5, 9, 14, 20, 5, 9, 14, 20, 5, 9, 14, 20,
    4, 11, 16, 23, 4, 11, 16, 23, 4, 11, 16, 23, 4, 11, 16, 23,
    6, 10, 15, 21, 6, 10, 15, 21, 6, 10, 15, 21, 6, 10, 15, 21]"

definition RotateLeft32 :: "u32 \<Rightarrow> nat \<Rightarrow> u32" where
  "RotateLeft32 x k = push_bit k x OR drop_bit (32 - k) x"

definition md5_F :: "nat \<Rightarrow> u32 \<Rightarrow> u32 \<Rightarrow> u32 \<Rightarrow> u32" where
  "md5_F i b c d =
     (if i < 16 then ((c XOR d) AND b) XOR d
      else if i < 32 then ((b XOR c) AND d) XOR c
      else if i < 48 then b XOR c XOR d
      else c XOR (b OR NOT d))"

definition md5_G :: "nat \<Rightarrow> nat" where
  "md5_G i =
     (if i < 16 then i
      else if i < 32 then (5 * i + 1) mod 16
      else if i < 48 then (3 * i + 5) mod 16
      else (7 * i) mod 16)"

fun md5_step :: "u32 list \<Rightarrow> u32 \<times> u32 \<times> u32 \<times> u32 \<Rightarrow> nat \<Rightarrow> u32 \<times> u32 \<times> u32 \<times> u32" where
  "md5_step x (a, b, c, d) i =
     (d, b + RotateLeft32 (md5_F i b c d + a + x ! md5_G i + md5_K ! i) (md5_S ! i), b, c)"

fun le_words :: "u8 list \<Rightarrow> u32 list" where
  "le_words (b0 # b1 # b2 # b3 # bs) =
     (ucast b0 OR push_bit 8 (ucast b1) OR push_bit 16 (ucast b2) OR push_bit 24 (ucast b3))
       # le_words bs"
| "le_words _ = []"

definition le_bytes :: "u32 \<Rightarrow> u8 list" where
  "le_bytes w = [ucast w, ucast (drop_bit 8 w), ucast (drop_bit 16 w), ucast (drop_bit 24 w)]"

definition md5_block :: "u32 \<times> u32 \<times> u32 \<times> u32 \<Rightarrow> u8 list \<Rightarrow> u32 \<times> u32 \<times> u32 \<times> u32" where
  "md5_block st p =
     (case st of (a0, b0, c0, d0) \<Rightarrow>
        (case foldl (md5_step (le_words p)) st [0..<64] of (a, b, c, d) \<Rightarrow>
           (a0 + a, b0 + b, c0 + c, d0 + d)))"

fun md5_blocks :: "nat \<Rightarrow> u32 \<times> u32 \<times> u32 \<times> u32 \<Rightarrow> u8 list \<Rightarrow> u32 \<times> u32 \<times> u32 \<times> u32" where
  "md5_blocks 0 st p = st"
| "md5_blocks (Suc n) st p = md5_blocks n (md5_block st (take 64 p)) (drop 64 p)"

definition md5_padding :: "u8 list \<Rightarrow> u8 list" where
  "md5_padding bs =
     bs @ [0x80] @ replicate ((119 - length bs mod 64) mod 64) 0
        @ map (\<lambda>k. ucast (drop_bit (8 * k) (word_of_nat (8 * length bs) :: 64 word))) [0..<8]"

text \<open>\<open>md5.Sum(data)\<close>: the 16 bytes of the digest.\<close>

definition md5_Sum :: "u8 list \<Rightarrow> u8 list" where
  "md5_Sum bs =
     (let p = md5_padding bs in
      case md5_blocks (length p div 64) (0x67452301, 0xefcdab89, 0x98badcfe, 0x10325476) p of
        (a, b, c, d) \<Rightarrow> le_bytes a @ le_bytes b @ le_bytes c @ le_bytes d)"

text \<open>\<open>hex.EncodeToString(src)\<close>: two digits of \<open>0123456789abcdef\<close> for every byte.\<close>

definition hextable :: string where
  "hextable = ''0123456789abcdef''"

fun EncodeToString :: "u8 list \<Rightarrow> string" where
  "EncodeToString [] = []"
| "EncodeToString (v # src) =
     hextable ! unat (drop_bit 4 v) # hextable ! unat (v AND 0x0f) # EncodeToString src"

text \<open>The conversion \<open>[]byte(email)\<close>.\<close>

definition bytes_of :: "string \<Rightarrow> u8 list" where
  "bytes_of s = map of_char s"

section \<open>The functions of main.go\<close>

text \<open>
  \<open>var updateTypeColor = map[string]string{...}\<close> (lines 192-197), and the index expression
  \<open>m[k]\<close> of a \<open>map[string]string\<close>, which yields the empty string for a key that is
  absent.
\<close>

definition updateTypeColor :: "string \<rightharpoonup> string" where
  "updateTypeColor = map_of [
     (''CREATE'', ''#2e77ff''),
     (''UPDATE_FAST_FORWARD'', ''#60ff55''),
     (''UPDATE_NON_FAST_FORWARD'', ''#ff2e2e''),
     (''DELETE'', ''#ff6d2e'')]"

definition index_map :: "(string \<rightharpoonup> string) \<Rightarrow> string \<Rightarrow> string" where
  "index_map m k = (case m k of None \<Rightarrow> [] | Some v \<Rightarrow> v)"

text \<open>\<open>func gravatarURL(email string) string\<close> (lines 249-255).\<close>

definition gravatarURL :: "string \<Rightarrow> string" where
  "gravatarURL email =
     (if email = [] then []
      else ''http://gravatar.com/avatar/'' @ EncodeToString (md5_Sum (bytes_of email)))"

text \<open>
  \<open>func sendSlackMessage(message *slackMsg) error\<close> (lines 257-281). The result is the
  error (\<open>None\<close> for \<open>nil\<close>) and the trace extended by the library calls made. The
  response body is read and closed without a check (lines 275-276), which has no part in
  the result.
\<close>

definition sendSlackMessage :: "env \<Rightarrow> slackMsg \<Rightarrow> call list \<Rightarrow> error option \<times> call list" where
  "sendSlackMessage e message t =
     (if slackURL e = [] then (None, t)
      else
        let t1 = t @ [JsonEncode message] in
        case jsonEncode e message of
          Inl err \<Rightarrow> (Some err, t1)
        | Inr buf \<Rightarrow>
            let t2 = t1 @ [HttpNewRequest ''POST'' (slackURL e)] in
            (case httpNewRequest e ''POST'' (slackURL e) of
               Some err \<Rightarrow> (Some err, t2)
             | None \<Rightarrow>
                 let t3 = t2 @ [ClientDo ''POST'' (slackURL e) buf] in
                 (case clientDo e t2 ''POST'' (slackURL e) buf of
                    Inl err \<Rightarrow> (Some err, t3)
                  | Inr StatusCode \<Rightarrow>
                      if StatusCode \<noteq> 200 then (Some (Error ''response not ok''), t3)
                      else (None, t3))))"

text \<open>
  \<open>func processUpdateEvent(d *data, ev *updateEvent) error\<close> (lines 130-190), in two
  parts. The first part is everything before the call of \<open>sendSlackMessage\<close>: the two
  early returns (\<open>None\<close>) and the message literal of lines 153-189, in which the fields
  that the literal leaves out have Go's zero values.
\<close>

definition processUpdateEvent_message :: "data \<Rightarrow> updateEvent \<Rightarrow> slackMsg option" where
  "processUpdateEvent_message d ev =
     (let color = index_map updateTypeColor (UpdateType ev) in
      if color = [] then None
      else
        let xs = SplitN (Name d) CHR ''/'' 4 in
        if length xs \<noteq> 4 then None
        else
          let projectID = xs ! 1;
              repoName = xs ! 3;
              commitURL = Sprintf ''https://source.cloud.google.com/%s/%s/+/%s''
                            [projectID, repoName, NewID ev]
          in Some \<lparr>
            Text_msg = [],
            Attachments = [\<lparr>
              Fallback = Sprintf ''%s:%s'' [Name d, RefName ev],
              Color = color,
              Pretext = [],
              AuthorName = Email (RefUpdateEvent d),
              AuthorLink = [],
              AuthorIcon = gravatarURL (Email (RefUpdateEvent d)),
              Title = ''Cloud Repo'',
              TitleLink = commitURL,
              Text = [],
              Fields = [
                \<lparr>Title_field = ''Repository'', Value_field = Name d, Short_field = False\<rparr>,
                \<lparr>Title_field = ''Branch'', Value_field = RefName ev, Short_field = False\<rparr>,
                \<lparr>Title_field = ''Email'', Value_field = Email (RefUpdateEvent d),
                  Short_field = False\<rparr>,
                \<lparr>Title_field = ''Update Type'', Value_field = UpdateType ev, Short_field = False\<rparr>,
                \<lparr>Title_field = ''Commit SHA'', Value_field = NewID ev, Short_field = False\<rparr>],
              ImageURL = [],
              ThumbURL = [],
              Footer = [],
              FooterIcon = [],
              Timestamp = 0\<rparr>]\<rparr>)"

text \<open>The second part: an early return is \<open>nil\<close>, a message goes to \<open>sendSlackMessage\<close>.\<close>

definition processUpdateEvent :: "env \<Rightarrow> data \<Rightarrow> updateEvent \<Rightarrow> call list \<Rightarrow> error option \<times> call list" where
  "processUpdateEvent e d ev t =
     (case processUpdateEvent_message d ev of
        None \<Rightarrow> (None, t)
      | Some message \<Rightarrow> sendSlackMessage e message t)"

text \<open>
  \<open>func processData(d *data) error\<close> (lines 120-128). \<open>range_map\<close> is the sequence of
  entries that \<open>range\<close> visits: none for a \<open>nil\<close> map. The loop returns at the first error.
\<close>

definition range_map :: "('k \<times> 'v) list option \<Rightarrow> ('k \<times> 'v) list" where
  "range_map m = (case m of None \<Rightarrow> [] | Some kvs \<Rightarrow> kvs)"

fun processData_loop ::
  "env \<Rightarrow> data \<Rightarrow> (string \<times> updateEvent) list \<Rightarrow> call list \<Rightarrow> error option \<times> call list" where
  "processData_loop e d [] t = (None, t)"
| "processData_loop e d ((k, ev) # rest) t =
     (case processUpdateEvent e d ev t of
        (Some err, t') \<Rightarrow> (Some err, t')
      | (None, t') \<Rightarrow> processData_loop e d rest t')"

definition processData :: "env \<Rightarrow> data \<Rightarrow> call list \<Rightarrow> error option \<times> call list" where
  "processData e d t = processData_loop e d (range_map (RefUpdates (RefUpdateEvent d))) t"

text \<open>
  The callback that \<open>startPull\<close> hands to \<open>Receive\<close> (lines 53-69). It gets the payload
  \<open>msg.Data\<close>; its result is the sequence of calls it makes on the message, in order, and
  the trace. The body of the callback makes no call on a decode error and on success, and
  calls \<open>msg.Nack()\<close> when \<open>processData\<close> fails; \<open>defer msg.Ack()\<close> (line 54) then runs on
  every return. The line printed on standard output (line 56) is left out.
\<close>

datatype msg_call = Ack | Nack

definition startPull_callback :: "env \<Rightarrow> string \<Rightarrow> call list \<Rightarrow> msg_call list \<times> call list" where
  "startPull_callback e msg_Data t =
     (let deferred = [Ack];
          (body, t') =
            (case jsonUnmarshal e msg_Data of
               Inl err \<Rightarrow> ([], t)
             | Inr d \<Rightarrow>
                 (case processData e d t of
                    (Some err, t') \<Rightarrow> ([Nack], t')
                  | (None, t') \<Rightarrow> ([], t')))
      in (body @ deferred, t'))"

section \<open>Example values\<close>

text \<open>
  The envelope of the end-to-end scenarios, with a choice of resource name and ref updates,
  and environments in which the webhook is configured or not, the encoder works or not,
  and the remote end answers in a given way.
\<close>

definition example_update :: "string \<Rightarrow> string \<Rightarrow> updateEvent" where
  "example_update ref ut = \<lparr>RefName = ref, UpdateType = ut, OldID = [], NewID = ''abc123''\<rparr>"

definition example_data :: "string \<Rightarrow> (string \<times> updateEvent) list option \<Rightarrow> data" where
  "example_data name us =
     \<lparr>Name = name, URL = [], EventTime = 0,
      RefUpdateEvent = \<lparr>Email = ''a@b.com'', RefUpdates = us\<rparr>\<rparr>"

definition example_msg :: slackMsg where
  "example_msg = \<lparr>Text_msg = ''hello'', Attachments = []\<rparr>"

definition answer_status :: "int \<Rightarrow> call list \<Rightarrow> error + int" where
  "answer_status s t = Inr s"

definition answer_error :: "call list \<Rightarrow> error + int" where
  "answer_error t = Inl (Error ''context deadline exceeded'')"

definition answer_second_fails :: "call list \<Rightarrow> error + int" where
  "answer_second_fails t = (if posts t = [] then Inr 200 else Inr 500)"

definition encode_fails :: "slackMsg \<Rightarrow> error + string" where
  "encode_fails m = Inl (Error ''json: unsupported value'')"

definition example_env :: "string \<Rightarrow> (call list \<Rightarrow> error + int) \<Rightarrow> data \<Rightarrow> env" where
  "example_env url answer d =
     \<lparr>slackURL = url,
      jsonEncode = (\<lambda>m. Inr ''{}''),
      httpNewRequest = (\<lambda>method u. None),
      clientDo = (\<lambda>t method u body. answer t),
      jsonUnmarshal = (\<lambda>s. if s = [] then Inl (Error ''unexpected end of JSON input'') else Inr d)\<rparr>"

definition example_hook :: string where
  "example_hook = ''https://hooks.example/T''"

definition example_three :: data where
  "example_three =
     example_data ''projects/p1/repos/r1''
       (Some [(''a'', example_update ''refs/heads/a'' ''CREATE''),
              (''b'', example_update ''refs/heads/b'' ''DELETE''),
              (''c'', example_update ''refs/heads/c'' ''CREATE'')])"

section \<open>Lemmas about the library functions\<close>

lemma posts_append: "posts (t @ cs) = posts t @ posts cs"
  by (induction t rule: posts.induct) simp_all

lemma count_list_after_sep:
  "sep \<in> set s \<Longrightarrow> count_list s sep = Suc (count_list (tl (dropWhile (\<lambda>x. x \<noteq> sep) s)) sep)"
  by (induction s) auto

lemma SplitN_length:
  "0 < n \<Longrightarrow> length (SplitN s sep n) = min n (Suc (count_list s sep))"
proof (induction s sep n rule: SplitN.induct)
  case (1 s sep)
  then show ?case by simp
next
  case (2 s sep)
  then show ?case by simp
next
  case (3 s sep n)
  show ?case
  proof (cases "sep \<in> set s")
    case True
    with 3 count_list_after_sep [OF True] show ?thesis by simp
  next
    case False
    then have "count_list s sep = 0" by (simp add: count_list_0_iff)
    with False show ?thesis by simp
  qed
qed

lemma SplitN_four_length:
  "length (SplitN s sep 4) = 4 \<longleftrightarrow> 3 \<le> count_list s sep"
  using SplitN_length [of 4 s sep] by auto

lemma four_Suc: "(4::nat) = Suc (Suc (Suc (Suc 0)))"
  by simp

lemma SplitN_four_segments:
  assumes "sep \<notin> set x0" "sep \<notin> set x1" "sep \<notin> set x2"
  shows "SplitN (x0 @ sep # x1 @ sep # x2 @ sep # rest) sep 4 = [x0, x1, x2, rest]"
proof -
  have cut: "takeWhile (\<lambda>c. c \<noteq> sep) (x @ sep # r) = x \<and>
      tl (dropWhile (\<lambda>c. c \<noteq> sep) (x @ sep # r)) = r" if "sep \<notin> set x" for x r
    using that by (induction x) auto
  show ?thesis
    unfolding four_Suc using assms by (simp add: cut)
qed

lemma Sprintf_commitURL:
  "Sprintf ''https://source.cloud.google.com/%s/%s/+/%s'' [p, r, n] =
     ''https://source.cloud.google.com/'' @ p @ ''/'' @ r @ ''/+/'' @ n"
  by simp

lemma Sprintf_fallback: "Sprintf ''%s:%s'' [a, b] = a @ '':'' @ b"
  by simp

lemma length_md5_Sum: "length (md5_Sum bs) = 16"
  by (simp add: md5_Sum_def le_bytes_def Let_def split: prod.split)

lemma hex_digit_high: "unat (drop_bit 4 (v :: u8)) < 16"
proof -
  have "unat v < 2 ^ 8" using unsigned_less [of v] by simp
  moreover have "unat (drop_bit 4 v) = unat v div 16"
    by (simp add: drop_bit_eq_div unat_div)
  ultimately show ?thesis by simp
qed

lemma hex_digit_low: "unat ((v :: u8) AND 0x0f) < 16"
proof -
  have "v AND 0x0f \<le> 0x0f"
    by (rule word_and_le1)
  then have "unat (v AND 0x0f) \<le> unat (0x0f :: u8)"
    by (simp only: word_le_nat_alt)
  then show ?thesis by simp
qed

lemma EncodeToString_digits: "set (EncodeToString bs) \<subseteq> set hextable"
proof (induction bs)
  case Nil
  then show ?case by simp
next
  case (Cons v bs)
  have "length hextable = 16" by (simp add: hextable_def)
  then have "hextable ! unat (drop_bit 4 v) \<in> set hextable"
    and "hextable ! unat (v AND 0x0f) \<in> set hextable"
    using hex_digit_high [of v] hex_digit_low [of v] by (simp_all del: unsigned_drop_bit_eq)
  with Cons show ?case by simp
qed

lemma length_EncodeToString: "length (EncodeToString bs) = 2 * length bs"
  by (induction bs) simp_all

section \<open>Lemmas about the mapper and the loop\<close>

lemma index_map_updateTypeColor:
  "index_map updateTypeColor ut =
     (if ut = ''CREATE'' then ''#2e77ff''
      else if ut = ''UPDATE_FAST_FORWARD'' then ''#60ff55''
      else if ut = ''UPDATE_NON_FAST_FORWARD'' then ''#ff2e2e''
      else if ut = ''DELETE'' then ''#ff6d2e''
      else [])"
  by (simp add: index_map_def updateTypeColor_def)

lemma processUpdateEvent_skip:
  "processUpdateEvent_message d ev = None \<Longrightarrow> processUpdateEvent e d ev t = (None, t)"
  by (simp add: processUpdateEvent_def)

lemma processData_loop_append:
  "processData_loop e d pre t = (None, t1) \<Longrightarrow>
   processData_loop e d (pre @ post) t = processData_loop e d post t1"
proof (induction pre arbitrary: t)
  case Nil
  then show ?case by simp
next
  case (Cons kv pre)
  obtain k ev where kv: "kv = (k, ev)" by (cases kv)
  obtain r t' where step: "processUpdateEvent e d ev t = (r, t')"
    by (cases "processUpdateEvent e d ev t")
  show ?case
  proof (cases r)
    case None
    with Cons.prems kv step have "processData_loop e d pre t' = (None, t1)" by simp
    from Cons.IH [OF this] show ?thesis using kv step None by simp
  next
    case (Some err)
    with Cons.prems kv step show ?thesis by simp
  qed
qed

lemmas example_defs = example_update_def example_data_def example_env_def answer_status_def
  answer_second_fails_def answer_error_def encode_fails_def example_msg_def example_hook_def
  example_three_def

lemma example_message:
  "4 \<le> count_list name CHR ''/'' + 1 \<Longrightarrow>
   ut \<in> {''CREATE'', ''UPDATE_FAST_FORWARD'', ''UPDATE_NON_FAST_FORWARD'', ''DELETE''} \<Longrightarrow>
   processUpdateEvent_message (example_data name us) (example_update ref ut) \<noteq> None"
  by (auto simp: processUpdateEvent_message_def Let_def index_map_updateTypeColor
      SplitN_four_length example_defs)

lemma SplitN_example:
  "SplitN ''projects/p1/repos/r1'' CHR ''/'' 4 = [''projects'', ''p1'', ''repos'', ''r1'']"
  unfolding four_Suc by simp

lemma example_three_fails:
  "fst (processData (example_env example_hook (answer_status 500) d0) example_three []) =
     Some (Error ''response not ok'')"
proof -
  have "processUpdateEvent_message example_three (example_update ''refs/heads/a'' ''CREATE'') \<noteq> None"
    unfolding example_three_def by (rule example_message) simp_all
  then show ?thesis
    by (auto simp: processData_def range_map_def example_three_def example_data_def
        processUpdateEvent_def sendSlackMessage_def Let_def example_env_def answer_status_def
        example_hook_def)
qed

lemma example_three_succeeds:
  "fst (processData (example_env example_hook (answer_status 200) d0) example_three []) = None"
proof -
  have "processUpdateEvent_message example_three (example_update ref ut) \<noteq> None"
    if "ut \<in> {''CREATE'', ''UPDATE_FAST_FORWARD'', ''UPDATE_NON_FAST_FORWARD'', ''DELETE''}" for ref ut
    unfolding example_three_def using that by (intro example_message) simp_all
  from this [of "''CREATE''" "''refs/heads/a''"] this [of "''DELETE''" "''refs/heads/b''"]
    this [of "''CREATE''" "''refs/heads/c''"]
  show ?thesis
    by (auto simp: processData_def range_map_def example_three_def example_data_def
        processUpdateEvent_def sendSlackMessage_def Let_def example_env_def answer_status_def
        example_hook_def)
qed

subsection \<open>MD5 test vectors\<close>

text \<open>The first two digests are those of the test suite of RFC 1321.\<close>

lemma md5_Sum_empty:
  "EncodeToString (md5_Sum (bytes_of [])) = ''d41d8cd98f00b204e9800998ecf8427e''"
  by code_simp

lemma md5_Sum_a:
  "EncodeToString (md5_Sum (bytes_of ''a'')) = ''0cc175b9c0f1b6a831c399e269772661''"
  by code_simp

lemma md5_Sum_email:
  "EncodeToString (md5_Sum (bytes_of ''a@b.com'')) = ''357a20e8c56e69d6f9734d23ef9517e8''"
  by code_simp

lemma md5_Sum_email_space:
  "EncodeToString (md5_Sum (bytes_of '' a@b.com'')) = ''23a1f9293c57b7c9df64939fb3743c6f''"
  by code_simp

section \<open>Envelope processing\<close>

text \<open>
  Claim C1. Whatever the envelope and whatever the order in which its ref updates are
  visited: when the ref updates before some ref update \<open>ev\<close> have all been processed
  without an error and the delivery for \<open>ev\<close> fails with \<open>err\<close>, then \<open>processData\<close> returns
  \<open>err\<close>, and the trace it leaves is the one at the end of the failed delivery. The ref
  updates after \<open>ev\<close> do not occur in the result: none of them is mapped or delivered.
\<close>

theorem processData_fail_fast:
  assumes "range_map (RefUpdates (RefUpdateEvent d)) = pre @ (k, ev) # post"
    and "processData_loop e d pre t = (None, t1)"
    and "processUpdateEvent e d ev t1 = (Some err, t2)"
  shows "processData e d t = (Some err, t2)"
  using assms processData_loop_append [of e d pre t t1 "(k, ev) # post"]
  by (simp add: processData_def)

text \<open>
  Three ref updates, the remote end answering 200 to the first request and 500 from then
  on: the error of the second delivery is returned and two requests have been made.
\<close>

theorem processData_fail_fast_witness:
  "fst (processData (example_env example_hook answer_second_fails example_three) example_three [])
     = Some (Error ''response not ok'') \<and>
   posts (snd (processData (example_env example_hook answer_second_fails example_three)
     example_three [])) = [(example_hook, ''{}''), (example_hook, ''{}'')]"
proof -
  let ?e = "example_env example_hook answer_second_fails example_three"
  let ?a = "example_update ''refs/heads/a'' ''CREATE''"
  let ?b = "example_update ''refs/heads/b'' ''DELETE''"
  let ?c = "example_update ''refs/heads/c'' ''CREATE''"
  let ?t1 = "snd (processUpdateEvent ?e example_three ?a [])"
  let ?t2 = "snd (processUpdateEvent ?e example_three ?b ?t1)"
  have r: "range_map (RefUpdates (RefUpdateEvent example_three)) =
      [(''a'', ?a)] @ (''b'', ?b) # [(''c'', ?c)]"
    by (simp add: range_map_def example_data_def example_three_def)
  have ma: "processUpdateEvent_message example_three ?a \<noteq> None"
    unfolding example_three_def by (rule example_message) simp_all
  have mb: "processUpdateEvent_message example_three ?b \<noteq> None"
    unfolding example_three_def by (rule example_message) simp_all
  have a: "fst (processUpdateEvent ?e example_three ?a []) = None"
    and pa: "posts ?t1 = [(example_hook, ''{}'')]"
    using ma
    by (auto simp: processUpdateEvent_def sendSlackMessage_def Let_def example_env_def
        answer_second_fails_def example_hook_def)
  from a have 1: "processData_loop ?e example_three [(''a'', ?a)] [] = (None, ?t1)"
    by (simp add: split_beta prod_eq_iff split: option.split)
  have b: "fst (processUpdateEvent ?e example_three ?b ?t1) = Some (Error ''response not ok'')"
    and pb: "posts ?t2 = [(example_hook, ''{}''), (example_hook, ''{}'')]"
    using mb pa
    by (auto simp: processUpdateEvent_def sendSlackMessage_def Let_def posts_append
        example_env_def answer_second_fails_def example_hook_def)
  from b have 2:
    "processUpdateEvent ?e example_three ?b ?t1 = (Some (Error ''response not ok''), ?t2)"
    by (simp add: prod_eq_iff)
  from processData_fail_fast [OF r 1 2] pb show ?thesis by simp
qed

text \<open>
  Claim C10. For an envelope whose map of ref updates is \<open>nil\<close> or empty, \<open>processData\<close>
  returns \<open>nil\<close> and leaves the trace as it was: nothing is mapped and nothing is delivered,
  in every environment.
\<close>

theorem processData_no_updates:
  "RefUpdates (RefUpdateEvent d) = None \<or> RefUpdates (RefUpdateEvent d) = Some [] \<Longrightarrow>
   processData e d t = (None, t)"
  by (auto simp: processData_def range_map_def)

theorem processData_no_updates_witness:
  "processData (example_env example_hook answer_error example_three)
     (example_data ''projects/p1/repos/r1'' None) [] = (None, []) \<and>
   processData (example_env example_hook answer_error example_three)
     (example_data ''projects/p1/repos/r1'' (Some [])) [] = (None, [])"
  using processData_no_updates [of "example_data ''projects/p1/repos/r1'' None"
      "example_env example_hook answer_error example_three" "[]"]
    processData_no_updates [of "example_data ''projects/p1/repos/r1'' (Some [])"
      "example_env example_hook answer_error example_three" "[]"]
  by (simp add: example_data_def)

section \<open>The mapper\<close>

text \<open>
  Claim C2, as amended. The number of segments of the resource name is the number of its
  \<open>/\<close> plus one. With fewer than 4 segments the ref update is skipped: no message, no
  library call, the result \<open>nil\<close>. With 4 segments or more it is not skipped on account of
  the name, because the split is limited to 4 pieces: a known classification then gives a
  message.
\<close>

theorem processUpdateEvent_name_segments:
  "(count_list (Name d) CHR ''/'' + 1 < 4 \<longrightarrow>
      processUpdateEvent_message d ev = None \<and> processUpdateEvent e d ev t = (None, t)) \<and>
   (4 \<le> count_list (Name d) CHR ''/'' + 1 \<and> index_map updateTypeColor (UpdateType ev) \<noteq> [] \<longrightarrow>
      processUpdateEvent_message d ev \<noteq> None)"
proof (intro conjI impI)
  assume short: "count_list (Name d) CHR ''/'' + 1 < 4"
  then have "length (SplitN (Name d) CHR ''/'' 4) \<noteq> 4"
    by (simp add: SplitN_four_length)
  then show none: "processUpdateEvent_message d ev = None"
    by (simp add: processUpdateEvent_message_def Let_def)
  then show "processUpdateEvent e d ev t = (None, t)"
    by (rule processUpdateEvent_skip)
next
  assume "4 \<le> count_list (Name d) CHR ''/'' + 1 \<and> index_map updateTypeColor (UpdateType ev) \<noteq> []"
  then have "length (SplitN (Name d) CHR ''/'' 4) = 4"
    and "index_map updateTypeColor (UpdateType ev) \<noteq> []"
    by (simp_all add: SplitN_four_length)
  then show "processUpdateEvent_message d ev \<noteq> None"
    by (simp add: processUpdateEvent_message_def Let_def)
qed

theorem processUpdateEvent_name_segments_witness:
  "processUpdateEvent (example_env example_hook (answer_status 200) example_three)
     (example_data ''projects/p1/repos'' None) (example_update ''refs/heads/main'' ''CREATE'') []
     = (None, []) \<and>
   processUpdateEvent_message (example_data ''projects/p1/repos/github/acme/tool'' None)
     (example_update ''refs/heads/main'' ''CREATE'') \<noteq> None"
  using processUpdateEvent_name_segments [of "example_data ''projects/p1/repos'' None"
      "example_update ''refs/heads/main'' ''CREATE''"
      "example_env example_hook (answer_status 200) example_three" "[]"]
    processUpdateEvent_name_segments [of "example_data ''projects/p1/repos/github/acme/tool'' None"
      "example_update ''refs/heads/main'' ''CREATE''"
      "example_env example_hook (answer_status 200) example_three" "[]"]
  by (simp add: example_data_def example_update_def index_map_updateTypeColor)

text \<open>
  Claim C2 as it was stated fails for a name of 5 segments: a message is built and one
  request is sent.
\<close>

theorem five_segments_counterexample:
  "count_list ''projects/p1/repos/r1/extra'' CHR ''/'' + 1 = 5 \<and>
   processUpdateEvent_message (example_data ''projects/p1/repos/r1/extra'' None)
     (example_update ''refs/heads/main'' ''CREATE'') \<noteq> None \<and>
   posts (snd (processUpdateEvent (example_env example_hook (answer_status 200) example_three)
     (example_data ''projects/p1/repos/r1/extra'' None)
     (example_update ''refs/heads/main'' ''CREATE'') [])) = [(example_hook, ''{}'')]"
proof -
  have m: "processUpdateEvent_message (example_data ''projects/p1/repos/r1/extra'' None)
     (example_update ''refs/heads/main'' ''CREATE'') \<noteq> None"
    by (rule example_message) simp_all
  then show ?thesis
    by (auto simp: processUpdateEvent_def sendSlackMessage_def Let_def example_env_def
        answer_status_def example_hook_def)
qed

text \<open>
  Claim C4, as amended. The lookup in \<open>updateTypeColor\<close> gives the four listed colors.
  A ref update with any other classification, the empty one included, has no color: no
  message is built, no library call is made and the result is \<open>nil\<close>. A ref update with
  one of the four classifications gives, when the resource name splits into 4 pieces, a
  message with one attachment of the listed color, which is handed to \<open>sendSlackMessage\<close>.
\<close>

theorem updateTypeColor_lookup:
  "index_map updateTypeColor ''CREATE'' = ''#2e77ff'' \<and>
   index_map updateTypeColor ''UPDATE_FAST_FORWARD'' = ''#60ff55'' \<and>
   index_map updateTypeColor ''UPDATE_NON_FAST_FORWARD'' = ''#ff2e2e'' \<and>
   index_map updateTypeColor ''DELETE'' = ''#ff6d2e'' \<and>
   (UpdateType ev \<notin> {''CREATE'', ''UPDATE_FAST_FORWARD'', ''UPDATE_NON_FAST_FORWARD'', ''DELETE''} \<longrightarrow>
      index_map updateTypeColor (UpdateType ev) = [] \<and>
      processUpdateEvent_message d ev = None \<and>
      processUpdateEvent e d ev t = (None, t)) \<and>
   (UpdateType ev \<in> {''CREATE'', ''UPDATE_FAST_FORWARD'', ''UPDATE_NON_FAST_FORWARD'', ''DELETE''} \<and>
    length (SplitN (Name d) CHR ''/'' 4) = 4 \<longrightarrow>
      (\<exists>m a. processUpdateEvent_message d ev = Some m \<and> Attachments m = [a] \<and>
         Color a = index_map updateTypeColor (UpdateType ev) \<and>
         processUpdateEvent e d ev t = sendSlackMessage e m t))"
proof -
  have other: "index_map updateTypeColor (UpdateType ev) = [] \<and>
      processUpdateEvent_message d ev = None \<and> processUpdateEvent e d ev t = (None, t)"
    if "UpdateType ev \<notin> {''CREATE'', ''UPDATE_FAST_FORWARD'', ''UPDATE_NON_FAST_FORWARD'', ''DELETE''}"
  proof -
    from that have c: "index_map updateTypeColor (UpdateType ev) = []"
      by (simp add: index_map_updateTypeColor)
    then have "processUpdateEvent_message d ev = None"
      by (simp add: processUpdateEvent_message_def)
    with c show ?thesis by (simp add: processUpdateEvent_skip)
  qed
  have known: "\<exists>m a. processUpdateEvent_message d ev = Some m \<and> Attachments m = [a] \<and>
         Color a = index_map updateTypeColor (UpdateType ev) \<and>
         processUpdateEvent e d ev t = sendSlackMessage e m t"
    if "UpdateType ev \<in> {''CREATE'', ''UPDATE_FAST_FORWARD'', ''UPDATE_NON_FAST_FORWARD'', ''DELETE''}"
      and "length (SplitN (Name d) CHR ''/'' 4) = 4"
  proof -
    from that(1) have "index_map updateTypeColor (UpdateType ev) \<noteq> []"
      by (auto simp: index_map_updateTypeColor)
    with that(2) show ?thesis
      by (simp add: processUpdateEvent_message_def processUpdateEvent_def Let_def)
  qed
  show ?thesis
    using other known by (simp add: index_map_updateTypeColor)
qed

theorem updateTypeColor_lookup_witness:
  "processUpdateEvent (example_env example_hook (answer_status 200) example_three)
     (example_data ''projects/p1/repos/r1'' None) (example_update ''refs/heads/main'' ''UNKNOWN'') []
     = (None, []) \<and>
   map Color (Attachments (the (processUpdateEvent_message
     (example_data ''projects/p1/repos/r1'' None) (example_update ''refs/heads/main'' ''CREATE''))))
     = [''#2e77ff'']"
proof -
  have len: "length (SplitN ''projects/p1/repos/r1'' CHR ''/'' 4) = 4"
    by (simp add: SplitN_four_length)
  show ?thesis
    using len
      updateTypeColor_lookup [of "example_update ''refs/heads/main'' ''UNKNOWN''"
        "example_data ''projects/p1/repos/r1'' None"
        "example_env example_hook (answer_status 200) example_three" "[]"]
      updateTypeColor_lookup [of "example_update ''refs/heads/main'' ''CREATE''"
        "example_data ''projects/p1/repos/r1'' None"
        "example_env example_hook (answer_status 200) example_three" "[]"]
    by (auto simp: example_data_def example_update_def)
qed

text \<open>
  Claim C4 as it was stated fails where the resource name is short: the classification
  \<open>CREATE\<close> then yields no message.
\<close>

theorem create_short_name_counterexample:
  "processUpdateEvent_message (example_data ''r1'' None)
     (example_update ''refs/heads/main'' ''CREATE'') = None"
  by (simp add: processUpdateEvent_message_def Let_def example_data_def example_update_def
      index_map_updateTypeColor SplitN_four_length)

section \<open>The formatter\<close>

text \<open>
  Claim C5. A ref update that is not skipped gives a message \<open>m\<close>, and that message is what
  \<open>sendSlackMessage\<close> receives. It has exactly one attachment; the fallback text is the
  resource name, a colon and the ref name; the title is \<open>Cloud Repo\<close> and the title link is
  the commit URL; the author name is the author email; the fields are, in this order,
  Repository, Branch, Email, Update Type and Commit SHA with the resource name, the ref
  name, the author email, the classification string and the new commit id.
\<close>

theorem processUpdateEvent_message_format:
  assumes "processUpdateEvent_message d ev = Some m"
  shows "processUpdateEvent e d ev t = sendSlackMessage e m t \<and>
    (\<exists>a. Attachments m = [a] \<and>
       Fallback a = Name d @ '':'' @ RefName ev \<and>
       Title a = ''Cloud Repo'' \<and>
       TitleLink a = ''https://source.cloud.google.com/'' @ SplitN (Name d) CHR ''/'' 4 ! 1 @ ''/''
                       @ SplitN (Name d) CHR ''/'' 4 ! 3 @ ''/+/'' @ NewID ev \<and>
       AuthorName a = Email (RefUpdateEvent d) \<and>
       map (\<lambda>f. (Title_field f, Value_field f)) (Fields a) =
         [(''Repository'', Name d), (''Branch'', RefName ev), (''Email'', Email (RefUpdateEvent d)),
          (''Update Type'', UpdateType ev), (''Commit SHA'', NewID ev)])"
proof
  show "processUpdateEvent e d ev t = sendSlackMessage e m t"
    using assms by (simp add: processUpdateEvent_def)
  show "\<exists>a. Attachments m = [a] \<and>
       Fallback a = Name d @ '':'' @ RefName ev \<and>
       Title a = ''Cloud Repo'' \<and>
       TitleLink a = ''https://source.cloud.google.com/'' @ SplitN (Name d) CHR ''/'' 4 ! 1 @ ''/''
                       @ SplitN (Name d) CHR ''/'' 4 ! 3 @ ''/+/'' @ NewID ev \<and>
       AuthorName a = Email (RefUpdateEvent d) \<and>
       map (\<lambda>f. (Title_field f, Value_field f)) (Fields a) =
         [(''Repository'', Name d), (''Branch'', RefName ev), (''Email'', Email (RefUpdateEvent d)),
          (''Update Type'', UpdateType ev), (''Commit SHA'', NewID ev)]"
    using assms
    by (auto simp: processUpdateEvent_message_def Let_def split: if_splits)
qed

theorem processUpdateEvent_message_format_witness:
  "length (Attachments (the (processUpdateEvent_message
     (example_data ''projects/p1/repos/r1'' None) (example_update ''refs/heads/main'' ''CREATE''))))
     = 1 \<and>
   map Fallback (Attachments (the (processUpdateEvent_message
     (example_data ''projects/p1/repos/r1'' None) (example_update ''refs/heads/main'' ''CREATE''))))
     = [''projects/p1/repos/r1:refs/heads/main''] \<and>
   map (map Value_field \<circ> Fields) (Attachments (the (processUpdateEvent_message
     (example_data ''projects/p1/repos/r1'' None) (example_update ''refs/heads/main'' ''CREATE''))))
     = [[''projects/p1/repos/r1'', ''refs/heads/main'', ''a@b.com'', ''CREATE'', ''abc123'']]"
proof -
  let ?d = "example_data ''projects/p1/repos/r1'' None"
  let ?ev = "example_update ''refs/heads/main'' ''CREATE''"
  have "processUpdateEvent_message ?d ?ev \<noteq> None"
    by (rule example_message) simp_all
  then have some: "processUpdateEvent_message ?d ?ev = Some (the (processUpdateEvent_message ?d ?ev))"
    by simp
  from processUpdateEvent_message_format [OF some, of "example_env [] answer_error example_three" "[]"]
  show ?thesis
    by (auto simp: example_data_def example_update_def)
qed

text \<open>
  Claim C6. The commit URL is the format string with the project id, the repository name
  and the new commit id put in as they are, whatever bytes they contain. Where the
  resource name splits into the 4 pieces \<open>x0\<close>, \<open>projectID\<close>, \<open>x2\<close> and \<open>repoName\<close>, the title
  link of the message is that URL; for the name \<open>projects/p1/repos/r1\<close> and the new commit
  id \<open>abc123\<close> it is \<open>https://source.cloud.google.com/p1/r1/+/abc123\<close>.
\<close>

theorem commitURL_construction:
  "Sprintf ''https://source.cloud.google.com/%s/%s/+/%s'' [projectID, repoName, newID] =
     ''https://source.cloud.google.com/'' @ projectID @ ''/'' @ repoName @ ''/+/'' @ newID \<and>
   (SplitN (Name d) CHR ''/'' 4 = [x0, projectID, x2, repoName] \<and>
    index_map updateTypeColor (UpdateType ev) \<noteq> [] \<longrightarrow>
      (\<exists>m a. processUpdateEvent_message d ev = Some m \<and> Attachments m = [a] \<and>
         TitleLink a = ''https://source.cloud.google.com/'' @ projectID @ ''/'' @ repoName
                         @ ''/+/'' @ NewID ev)) \<and>
   (Name d = ''projects/p1/repos/r1'' \<and> NewID ev = ''abc123'' \<and>
    index_map updateTypeColor (UpdateType ev) \<noteq> [] \<longrightarrow>
      (\<exists>m a. processUpdateEvent_message d ev = Some m \<and> Attachments m = [a] \<and>
         TitleLink a = ''https://source.cloud.google.com/p1/r1/+/abc123''))"
proof -
  have general: "\<exists>m a. processUpdateEvent_message d ev = Some m \<and> Attachments m = [a] \<and>
         TitleLink a = ''https://source.cloud.google.com/'' @ p @ ''/'' @ r @ ''/+/'' @ NewID ev"
    if "SplitN (Name d) CHR ''/'' 4 = [y0, p, y2, r]"
      and "index_map updateTypeColor (UpdateType ev) \<noteq> []" for y0 p y2 r
    using that by (simp add: processUpdateEvent_message_def Let_def)
  have special: "\<exists>m a. processUpdateEvent_message d ev = Some m \<and> Attachments m = [a] \<and>
         TitleLink a = ''https://source.cloud.google.com/p1/r1/+/abc123''"
    if "Name d = ''projects/p1/repos/r1''" "NewID ev = ''abc123''"
      and "index_map updateTypeColor (UpdateType ev) \<noteq> []"
    using general [of "''projects''" "''p1''" "''repos''" "''r1''"] that SplitN_example by simp
  from general special Sprintf_commitURL [of projectID repoName newID] show ?thesis by blast
qed

text \<open>A project id with a space and a repository name with \<open>?\<close>, \<open>&\<close> and \<open>/\<close>.\<close>

theorem commitURL_construction_witness:
  "map TitleLink (Attachments (the (processUpdateEvent_message
     (example_data ''projects/p 1/repos/r?x=1&y/z'' None)
     (example_update ''refs/heads/main'' ''DELETE''))))
     = [''https://source.cloud.google.com/p 1/r?x=1&y/z/+/abc123''] \<and>
   map TitleLink (Attachments (the (processUpdateEvent_message
     (example_data ''projects/p1/repos/r1'' None)
     (example_update ''refs/heads/main'' ''CREATE''))))
     = [''https://source.cloud.google.com/p1/r1/+/abc123'']"
proof -
  have s: "SplitN ''projects/p 1/repos/r?x=1&y/z'' CHR ''/'' 4 =
      [''projects'', ''p 1'', ''repos'', ''r?x=1&y/z'']"
    unfolding four_Suc by simp
  show ?thesis
    using s commitURL_construction [of "''p 1''" "''r?x=1&y/z''" "''abc123''"
        "example_data ''projects/p 1/repos/r?x=1&y/z'' None" "''projects''" "''repos''"
        "example_update ''refs/heads/main'' ''DELETE''"]
      commitURL_construction [of "''p1''" "''r1''" "''abc123''"
        "example_data ''projects/p1/repos/r1'' None" "''projects''" "''repos''"
        "example_update ''refs/heads/main'' ''CREATE''"]
    by (auto simp: example_data_def example_update_def index_map_updateTypeColor)
qed

text \<open>
  Claim C7, as amended. \<open>gravatarURL\<close> returns the empty string for the empty email. For
  every other email it returns \<open>http://gravatar.com/avatar/\<close> followed by the 32 lowercase
  hexadecimal digits of the 16-byte MD5 digest of the email as it is given: the email is
  not trimmed, and the empty email is the only one with an empty URL. Being a function of
  the email alone, the URL is the same at every call.
\<close>

theorem gravatarURL_untrimmed:
  "gravatarURL [] = [] \<and>
   (email \<noteq> [] \<longrightarrow>
      gravatarURL email = ''http://gravatar.com/avatar/'' @ EncodeToString (md5_Sum (bytes_of email)) \<and>
      gravatarURL email \<noteq> [] \<and>
      length (md5_Sum (bytes_of email)) = 16 \<and>
      length (EncodeToString (md5_Sum (bytes_of email))) = 32 \<and>
      set (EncodeToString (md5_Sum (bytes_of email))) \<subseteq> set ''0123456789abcdef'')"
  using EncodeToString_digits [of "md5_Sum (bytes_of email)"]
  by (simp add: gravatarURL_def length_md5_Sum length_EncodeToString hextable_def)

theorem gravatarURL_untrimmed_witness:
  "gravatarURL ''a@b.com'' = ''http://gravatar.com/avatar/357a20e8c56e69d6f9734d23ef9517e8'' \<and>
   gravatarURL '' a@b.com'' = ''http://gravatar.com/avatar/23a1f9293c57b7c9df64939fb3743c6f''"
  using gravatarURL_untrimmed [of "''a@b.com''"] gravatarURL_untrimmed [of "'' a@b.com''"]
  by (simp add: md5_Sum_email md5_Sum_email_space)

text \<open>
  Claim C7 as it was stated fails: an email and the same email after a space have
  different avatar URLs.
\<close>

theorem gravatarURL_trim_counterexample:
  "gravatarURL '' a@b.com'' \<noteq> gravatarURL ''a@b.com''"
  by (simp add: gravatarURL_def md5_Sum_email md5_Sum_email_space)

section \<open>The delivery client\<close>

text \<open>
  Claim C8. With a destination URL that is not empty, \<open>sendSlackMessage\<close> returns \<open>nil\<close>
  exactly when the message was encoded, the request was built and the one call of
  \<open>client.Do\<close> came back with status 200. An error of the encoder and an error of
  \<open>client.Do\<close> are returned as they are, and a status other than 200 is returned as the
  error \<open>response not ok\<close>. At most one request is made, a POST to the destination URL with
  the encoded message as its body, and none when encoding or building the request failed.
\<close>

theorem sendSlackMessage_configured:
  assumes "slackURL e \<noteq> []"
  shows
   "(fst (sendSlackMessage e m t) = None \<longleftrightarrow>
       (\<exists>buf. jsonEncode e m = Inr buf \<and> httpNewRequest e ''POST'' (slackURL e) = None \<and>
          clientDo e (t @ [JsonEncode m, HttpNewRequest ''POST'' (slackURL e)]) ''POST'' (slackURL e) buf
            = Inr 200)) \<and>
    (\<forall>err. jsonEncode e m = Inl err \<longrightarrow> fst (sendSlackMessage e m t) = Some err) \<and>
    (\<forall>buf err. jsonEncode e m = Inr buf \<and> httpNewRequest e ''POST'' (slackURL e) = None \<and>
        clientDo e (t @ [JsonEncode m, HttpNewRequest ''POST'' (slackURL e)]) ''POST'' (slackURL e) buf
          = Inl err \<longrightarrow> fst (sendSlackMessage e m t) = Some err) \<and>
    (\<forall>buf StatusCode. jsonEncode e m = Inr buf \<and> httpNewRequest e ''POST'' (slackURL e) = None \<and>
        clientDo e (t @ [JsonEncode m, HttpNewRequest ''POST'' (slackURL e)]) ''POST'' (slackURL e) buf
          = Inr StatusCode \<and> StatusCode \<noteq> 200 \<longrightarrow>
        fst (sendSlackMessage e m t) = Some (Error ''response not ok'')) \<and>
    posts (snd (sendSlackMessage e m t)) = posts t @
       (case jsonEncode e m of
          Inl err \<Rightarrow> []
        | Inr buf \<Rightarrow>
            if httpNewRequest e ''POST'' (slackURL e) = None then [(slackURL e, buf)] else [])"
proof (intro conjI)
  show "fst (sendSlackMessage e m t) = None \<longleftrightarrow>
       (\<exists>buf. jsonEncode e m = Inr buf \<and> httpNewRequest e ''POST'' (slackURL e) = None \<and>
          clientDo e (t @ [JsonEncode m, HttpNewRequest ''POST'' (slackURL e)]) ''POST'' (slackURL e) buf
            = Inr 200)"
    using assms by (auto simp: sendSlackMessage_def Let_def split: sum.splits option.splits)
  show "\<forall>err. jsonEncode e m = Inl err \<longrightarrow> fst (sendSlackMessage e m t) = Some err"
    using assms by (simp add: sendSlackMessage_def)
  show "\<forall>buf err. jsonEncode e m = Inr buf \<and> httpNewRequest e ''POST'' (slackURL e) = None \<and>
        clientDo e (t @ [JsonEncode m, HttpNewRequest ''POST'' (slackURL e)]) ''POST'' (slackURL e) buf
          = Inl err \<longrightarrow> fst (sendSlackMessage e m t) = Some err"
    using assms by (simp add: sendSlackMessage_def)
  show "\<forall>buf StatusCode. jsonEncode e m = Inr buf \<and> httpNewRequest e ''POST'' (slackURL e) = None \<and>
        clientDo e (t @ [JsonEncode m, HttpNewRequest ''POST'' (slackURL e)]) ''POST'' (slackURL e) buf
          = Inr StatusCode \<and> StatusCode \<noteq> 200 \<longrightarrow>
        fst (sendSlackMessage e m t) = Some (Error ''response not ok'')"
    using assms by (simp add: sendSlackMessage_def)
  show "posts (snd (sendSlackMessage e m t)) = posts t @
       (case jsonEncode e m of
          Inl err \<Rightarrow> []
        | Inr buf \<Rightarrow>
            if httpNewRequest e ''POST'' (slackURL e) = None then [(slackURL e, buf)] else [])"
    using assms
    by (auto simp: sendSlackMessage_def Let_def posts_append split: sum.splits option.splits)
qed

text \<open>
  Status 200, status 404, an error of the transport and an error of the encoder.
\<close>

theorem sendSlackMessage_configured_witness:
  "fst (sendSlackMessage (example_env example_hook (answer_status 200) example_three) example_msg [])
     = None \<and>
   posts (snd (sendSlackMessage (example_env example_hook (answer_status 200) example_three)
     example_msg [])) = [(example_hook, ''{}'')] \<and>
   fst (sendSlackMessage (example_env example_hook (answer_status 404) example_three) example_msg [])
     = Some (Error ''response not ok'') \<and>
   fst (sendSlackMessage (example_env example_hook answer_error example_three) example_msg [])
     = Some (Error ''context deadline exceeded'') \<and>
   fst (sendSlackMessage
     ((example_env example_hook (answer_status 200) example_three)\<lparr>jsonEncode := encode_fails\<rparr>)
     example_msg []) = Some (Error ''json: unsupported value'') \<and>
   posts (snd (sendSlackMessage
     ((example_env example_hook (answer_status 200) example_three)\<lparr>jsonEncode := encode_fails\<rparr>)
     example_msg [])) = []"
proof -
  have url: "example_hook \<noteq> []" by (simp add: example_hook_def)
  have 1: "slackURL (example_env example_hook answer d) \<noteq> []" for answer d
    using url by (simp add: example_env_def)
  have 2: "slackURL ((example_env example_hook answer d)\<lparr>jsonEncode := encode_fails\<rparr>) \<noteq> []"
    for answer d
    using url by (simp add: example_env_def)
  show ?thesis
    using sendSlackMessage_configured [OF 1, of "answer_status 200" example_three example_msg "[]"]
      sendSlackMessage_configured [OF 1, of "answer_status 404" example_three example_msg "[]"]
      sendSlackMessage_configured [OF 1, of answer_error example_three example_msg "[]"]
      sendSlackMessage_configured [OF 2, of "answer_status 200" example_three example_msg "[]"]
    by (simp add: example_env_def answer_status_def answer_error_def encode_fails_def)
qed

text \<open>
  Claim C9. With the empty destination URL, \<open>sendSlackMessage\<close> returns \<open>nil\<close> and makes no
  library call, neither the encoder nor the network, for every message and whatever the
  libraries would have answered.
\<close>

theorem sendSlackMessage_unconfigured:
  "slackURL e = [] \<Longrightarrow> sendSlackMessage e message t = (None, t)"
  by (simp add: sendSlackMessage_def)

theorem sendSlackMessage_unconfigured_witness:
  "sendSlackMessage (example_env [] answer_error example_three) example_msg [] = (None, [])"
  using sendSlackMessage_unconfigured [of "example_env [] answer_error example_three" example_msg "[]"]
  by (simp add: example_env_def)

section \<open>The pull adapter\<close>

text \<open>
  Claim C3, as amended. On a decode error the callback calls \<open>Ack\<close> once and processes
  nothing. When processing succeeds it calls \<open>Ack\<close> once. When processing fails it calls
  \<open>Nack\<close> and then, through the deferred call, \<open>Ack\<close> as well. So on every path \<open>Ack\<close> is
  called exactly once, as the last call, and no message is left without a call.
\<close>

theorem startPull_callback_calls:
  "(\<forall>err. jsonUnmarshal e msg_Data = Inl err \<longrightarrow> startPull_callback e msg_Data t = ([Ack], t)) \<and>
   (\<forall>d. jsonUnmarshal e msg_Data = Inr d \<and> fst (processData e d t) = None \<longrightarrow>
      startPull_callback e msg_Data t = ([Ack], snd (processData e d t))) \<and>
   (\<forall>d. jsonUnmarshal e msg_Data = Inr d \<and> fst (processData e d t) \<noteq> None \<longrightarrow>
      startPull_callback e msg_Data t = ([Nack, Ack], snd (processData e d t))) \<and>
   count_list (fst (startPull_callback e msg_Data t)) Ack = 1 \<and>
   last (fst (startPull_callback e msg_Data t)) = Ack"
  by (auto simp: startPull_callback_def Let_def split: sum.splits prod.splits option.splits)

text \<open>An empty payload, three deliveries answered with 200, a delivery answered with 500.\<close>

theorem startPull_callback_calls_witness:
  "startPull_callback (example_env example_hook (answer_status 200) example_three) [] []
     = ([Ack], []) \<and>
   fst (startPull_callback (example_env example_hook (answer_status 200) example_three) ''{}'' [])
     = [Ack] \<and>
   fst (startPull_callback (example_env example_hook (answer_status 500) example_three) ''{}'' [])
     = [Nack, Ack]"
  using
    startPull_callback_calls [of "example_env example_hook (answer_status 200) example_three" "[]" "[]"]
    startPull_callback_calls [of "example_env example_hook (answer_status 200) example_three"
      "''{}''" "[]"]
    startPull_callback_calls [of "example_env example_hook (answer_status 500) example_three"
      "''{}''" "[]"]
    example_three_fails [of example_three]
    example_three_succeeds [of example_three]
  by (simp add: example_env_def)

text \<open>
  Claim C3 as it was stated fails where a delivery fails: the message gets a \<open>Nack\<close> and
  an \<open>Ack\<close>.
\<close>

theorem startPull_callback_both_counterexample:
  "fst (startPull_callback (example_env example_hook (answer_status 500) example_three) ''{}'' [])
     = [Nack, Ack]"
  using example_three_fails [of example_three]
  by (simp add: startPull_callback_def example_env_def Let_def split_beta split: option.split)

end
